theory Spec2Isabelle
  imports Main "HOL-Library.Word"
begin

section \<open>Errors, log records and observable actions\<close>

text \<open>
  The server code of \<^verbatim>\<open>sftpd/server.go\<close> is effectful: it logs, emits metrics, talks to the
  SSH library and mutates the registry of live connections. Each source function is
  embedded as a function returning the list of actions it performs, in program order,
  together with its result. The outcome of every call that leaves \<^verbatim>\<open>server.go\<close> (the SSH
  and SFTP libraries, the identity provider, the operating system) is an explicit argument.
  A task started by a \<^verbatim>\<open>go\<close> statement is one action of the task that starts it; its own
  actions are those of the function it runs.
\<close>

datatype fmt_arg = ArgS string | ArgI int

text \<open>
  Go \<^verbatim>\<open>error\<close> values that the code creates or tells apart: \<^verbatim>\<open>io.EOF\<close>, the SSH
  library's \<^verbatim>\<open>*ssh.ServerAuthError\<close>, the two file errors that start-up meets,
  \<^verbatim>\<open>errors.New\<close>, \<^verbatim>\<open>fmt.Errorf\<close> with its format and arguments, and the
  \<^verbatim>\<open>authenticationError\<close> of this package, which wraps another error.
\<close>

datatype error =
    io_EOF
  | ServerAuthError string
  | ErrNotExist
  | ErrPermission
  | errorString string
  | Errorf string "fmt_arg list"
  | authenticationError string error

datatype log_level = LevelDebug | LevelInfo | LevelWarn

text \<open>The reasons the SSH library offers for refusing a channel.\<close>

datatype RejectionReason = Prohibited | ConnectionFailed | UnknownChannelType | ResourceShortage

record sshSubsystemExitStatus =
  Status :: "32 word"

datatype event =
    Log log_level string
  | LogToConsole log_level string
  | ConnectionFailedLog string string string error
  | AddLoginAttempt string
  | AddLoginResult string "error option"
  | AddConnection string
  | RemoveConnection string
  | CreateHandler string
  | NewRequestServer nat
  | ServeCall nat
  | SendRequest nat string bool sshSubsystemExitStatus
  | ServerClose nat
  | SetDeadline bool
  | ConnClose
  | CheckRootPath string
  | UpdateLastLogin string
  | ChannelReject nat RejectionReason string
  | ChannelAccept nat
  | Reply nat bool
  | ExecCommand nat
  | GoDiscardRequests
  | GoChannelRequests nat
  | GoHandleSftpConnection nat string
  | GoAcceptInboundConnection nat
  | ListenerAccept
  | ProxyListenerAccept
  | SetUmask nat
  | GenerateKey string
  | SetSFTPExtensions "string list"
  | NetListen string int
  | StartIdleTimer int

text \<open>
  An action is one observable step: a log record (its level and format string), a metric,
  a registry update, a call on a channel, a socket or the file system, or the start of a
  task by a \<^verbatim>\<open>go\<close> statement. Channels, sockets and listeners are numbered.
  \<open>SetDeadline True\<close> sets the handshake deadline, \<open>SetDeadline False\<close> clears it.
  \<open>GenerateKey file\<close> is the call of a key generator for \<open>file\<close>, whether or not it
  succeeds.
\<close>

text \<open>How a function body ends: by returning, or by a panic that unwinds it.\<close>

datatype completion = Returned | Panicked string

section \<open>Users and connections\<close>

record User =
  Username :: string
  HomeDir :: string
  MaxSessions :: int

datatype protocol = protocolSFTP | protocolSCP | protocolSSH

record Connection =
  ID :: string
  ConnUser :: User
  ClientVersion :: string
  RemoteAddr :: string
  protocol :: "protocol option"
  channel :: "nat option"

section \<open>The SFTP serving task\<close>

text \<open>
  \<^verbatim>\<open>server.Serve()\<close> either returns an error value (\<open>None\<close> is Go's \<^verbatim>\<open>nil\<close>) or
  panics.
\<close>

datatype serve_outcome = ServeReturns "error option" | ServePanics string

text \<open>
  The body of \<^verbatim>\<open>handleSftpConnection\<close> after the two registry statements: create the
  handler and the request server, serve, and report how serving ended.
\<close>

definition serveRequests :: "serve_outcome \<Rightarrow> nat \<Rightarrow> Connection \<Rightarrow> event list \<times> completion" where
  "serveRequests serve ch connection =
     (case serve of
        ServePanics msg \<Rightarrow>
          ([CreateHandler (ID connection), NewRequestServer ch, ServeCall ch], Panicked msg)
      | ServeReturns err \<Rightarrow>
          ([CreateHandler (ID connection), NewRequestServer ch, ServeCall ch] @
           (if err = Some io_EOF then
              [Log LevelDebug ''connection closed, sending exit status'',
               SendRequest ch ''exit-status'' False \<lparr>Status = 0\<rparr>,
               Log LevelDebug ''sent exit status %+v error: %v'',
               ServerClose ch]
            else if err \<noteq> None then
              [Log LevelWarn ''connection closed with error: %v'']
            else []),
           Returned))"

text \<open>
  \<^verbatim>\<open>addConnection(connection)\<close> runs first; \<^verbatim>\<open>defer removeConnection(connection)\<close> runs
  when the function is left, by return or by panic.
\<close>

definition handleSftpConnection :: "serve_outcome \<Rightarrow> nat \<Rightarrow> Connection \<Rightarrow> event list \<times> completion" where
  "handleSftpConnection serve ch connection =
     (case serveRequests serve ch connection of
        (body, result) \<Rightarrow>
          ([AddConnection (ID connection)] @ body @ [RemoveConnection (ID connection)], result))"

text \<open>
  Modelled from the spec: \<^verbatim>\<open>addConnection\<close> and \<^verbatim>\<open>removeConnection\<close> are defined outside
  \<^verbatim>\<open>server.go\<close>. The spec describes a live-connection set: insert on SFTP bind, remove on
  exit. The set holds connection identifiers.
\<close>

fun registry_step :: "string set \<Rightarrow> event \<Rightarrow> string set" where
  "registry_step reg (AddConnection c) = insert c reg"
| "registry_step reg (RemoveConnection c) = reg - {c}"
| "registry_step reg _ = reg"

definition registry_after :: "string set \<Rightarrow> event list \<Rightarrow> string set" where
  "registry_after reg evs = foldl registry_step reg evs"

fun is_registry_event :: "event \<Rightarrow> bool" where
  "is_registry_event (AddConnection c) = True"
| "is_registry_event (RemoveConnection c) = True"
| "is_registry_event _ = False"

section \<open>Login policy\<close>

text \<open>
  \<^verbatim>\<open>loginUser\<close> consults code outside \<^verbatim>\<open>server.go\<close>: \<^verbatim>\<open>filepath.IsAbs\<close>, the session count
  \<^verbatim>\<open>getActiveSessions\<close>, the user's two policy predicates and \<^verbatim>\<open>json.Marshal\<close>. They
  are the fields of \<open>login_env\<close>.
\<close>

record login_env =
  filepath_IsAbs :: "string \<Rightarrow> bool"
  getActiveSessions :: "string \<Rightarrow> int"
  IsLoginMethodAllowed :: "User \<Rightarrow> string \<Rightarrow> bool"
  IsLoginFromAddrAllowed :: "User \<Rightarrow> string \<Rightarrow> bool"
  json_Marshal :: "User \<Rightarrow> error + string"

record Permissions =
  Extensions :: "string \<rightharpoonup> string"

definition loginUser ::
  "'a login_env_scheme \<Rightarrow> User \<Rightarrow> string \<Rightarrow> string \<Rightarrow> string \<Rightarrow> event list \<times> (error + Permissions)" where
  "loginUser env user loginMethod remoteAddr publicKey =
     (if \<not> filepath_IsAbs env (HomeDir user) then
        ([Log LevelWarn ''user %#v has an invalid home dir: %#v. Home dir must be an absolute path, login not allowed''],
         Inl (Errorf ''cannot login user with invalid home dir: %#v'' [ArgS (HomeDir user)]))
      else if MaxSessions user > 0 \<and> getActiveSessions env (Username user) \<ge> MaxSessions user then
        ([Log LevelDebug ''authentication refused for user: %#v, too many open sessions: %v/%v''],
         Inl (Errorf ''too many open sessions: %v'' [ArgI (getActiveSessions env (Username user))]))
      else if \<not> IsLoginMethodAllowed env user loginMethod then
        ([Log LevelDebug ''cannot login user %#v, login method %#v is not allowed''],
         Inl (Errorf ''Login method %#v is not allowed for user %#v'' [ArgS loginMethod, ArgS (Username user)]))
      else if \<not> IsLoginFromAddrAllowed env user remoteAddr then
        ([Log LevelDebug ''cannot login user %#v, remote address is not allowed: %v''],
         Inl (Errorf ''Login for user %#v is not allowed from this address: %v'' [ArgS (Username user), ArgS remoteAddr]))
      else
        (case json_Marshal env user of
           Inl err \<Rightarrow>
             ([Log LevelWarn ''error serializing user info: %v, authentication rejected''], Inl err)
         | Inr js \<Rightarrow>
             ([],
              Inr \<lparr>Extensions =
                     [''user'' \<mapsto> js,
                      ''login_method'' \<mapsto>
                         (if length publicKey > 0 then loginMethod @ '': '' @ publicKey
                          else loginMethod)]\<rparr>)))"

section \<open>The authentication adapter\<close>

text \<open>
  Modelled from the spec: the login-method tags are constants of the identity-provider
  package, which is outside \<^verbatim>\<open>server.go\<close>; the spec names the three methods password,
  public key and keyboard-interactive.
\<close>

definition SSHLoginMethodPublicKey :: string where
  "SSHLoginMethodPublicKey = ''publickey''"

definition SSHLoginMethodPassword :: string where
  "SSHLoginMethodPassword = ''password''"

definition SSHLoginMethodKeyboardInteractive :: string where
  "SSHLoginMethodKeyboardInteractive = ''keyboard-interactive''"

record ConnMetadata =
  MetaUser :: string
  MetaRemoteAddr :: string

text \<open>
  The identity provider's three checks and \<^verbatim>\<open>utils.GetIPFromRemoteAddress\<close>. The
  keyboard-interactive check receives the user name and the helper program; its dialogue
  with the client is part of the provider.
\<close>

record auth_env = login_env +
  CheckUserAndPass :: "string \<Rightarrow> string \<Rightarrow> error + User"
  CheckUserAndPubKey :: "string \<Rightarrow> string \<Rightarrow> error + (User \<times> string)"
  CheckKeyboardInteractiveAuth :: "string \<Rightarrow> string \<Rightarrow> error + User"
  GetIPFromRemoteAddress :: "string \<Rightarrow> string"

definition validatePublicKeyCredentials ::
  "'a auth_env_scheme \<Rightarrow> ConnMetadata \<Rightarrow> string \<Rightarrow> event list \<times> (error + Permissions)" where
  "validatePublicKeyCredentials env conn pubKey =
     (let method = SSHLoginMethodPublicKey in
      case (case CheckUserAndPubKey env (MetaUser conn) pubKey of
              Inl err \<Rightarrow> ([], Inl err)
            | Inr (user, keyID) \<Rightarrow> loginUser env user method (MetaRemoteAddr conn) keyID) of
        (evs, res) \<Rightarrow>
          ([AddLoginAttempt method] @ evs @
           (case res of
              Inl err \<Rightarrow>
                [ConnectionFailedLog (MetaUser conn)
                   (GetIPFromRemoteAddress env (MetaRemoteAddr conn)) method err]
            | Inr sshPerm \<Rightarrow> []) @
           [AddLoginResult method (case res of Inl err \<Rightarrow> Some err | Inr sshPerm \<Rightarrow> None)],
           res))"

definition validatePasswordCredentials ::
  "'a auth_env_scheme \<Rightarrow> ConnMetadata \<Rightarrow> string \<Rightarrow> event list \<times> (error + Permissions)" where
  "validatePasswordCredentials env conn pass =
     (let method = SSHLoginMethodPassword in
      case (case CheckUserAndPass env (MetaUser conn) pass of
              Inl err \<Rightarrow> ([], Inl err)
            | Inr user \<Rightarrow> loginUser env user method (MetaRemoteAddr conn) []) of
        (evs, res) \<Rightarrow>
          ([AddLoginAttempt method] @ evs @
           (case res of
              Inl err \<Rightarrow>
                [ConnectionFailedLog (MetaUser conn)
                   (GetIPFromRemoteAddress env (MetaRemoteAddr conn)) method err]
            | Inr sshPerm \<Rightarrow> []) @
           [AddLoginResult method (case res of Inl err \<Rightarrow> Some err | Inr sshPerm \<Rightarrow> None)],
           res))"

definition validateKeyboardInteractiveCredentials ::
  "'a auth_env_scheme \<Rightarrow> string \<Rightarrow> ConnMetadata \<Rightarrow> event list \<times> (error + Permissions)" where
  "validateKeyboardInteractiveCredentials env program conn =
     (let method = SSHLoginMethodKeyboardInteractive in
      case (case CheckKeyboardInteractiveAuth env (MetaUser conn) program of
              Inl err \<Rightarrow> ([], Inl err)
            | Inr user \<Rightarrow> loginUser env user method (MetaRemoteAddr conn) []) of
        (evs, res) \<Rightarrow>
          ([AddLoginAttempt method] @ evs @
           (case res of
              Inl err \<Rightarrow>
                [ConnectionFailedLog (MetaUser conn)
                   (GetIPFromRemoteAddress env (MetaRemoteAddr conn)) method err]
            | Inr sshPerm \<Rightarrow> []) @
           [AddLoginResult method (case res of Inl err \<Rightarrow> Some err | Inr sshPerm \<Rightarrow> None)],
           res))"

text \<open>
  The callbacks that \<^verbatim>\<open>Initialize\<close> installs in the SSH server configuration wrap a
  failure in an \<^verbatim>\<open>authenticationError\<close> and add no action of their own.
\<close>

definition wrapAuthError :: "string \<Rightarrow> event list \<times> (error + Permissions) \<Rightarrow> event list \<times> (error + Permissions)" where
  "wrapAuthError fmt r =
     (case r of
        (evs, Inl err) \<Rightarrow> (evs, Inl (authenticationError fmt err))
      | (evs, Inr sp) \<Rightarrow> (evs, Inr sp))"

definition PasswordCallback ::
  "'a auth_env_scheme \<Rightarrow> ConnMetadata \<Rightarrow> string \<Rightarrow> event list \<times> (error + Permissions)" where
  "PasswordCallback env conn pass =
     wrapAuthError ''could not validate password credentials: %v''
       (validatePasswordCredentials env conn pass)"

definition PublicKeyCallback ::
  "'a auth_env_scheme \<Rightarrow> ConnMetadata \<Rightarrow> string \<Rightarrow> event list \<times> (error + Permissions)" where
  "PublicKeyCallback env conn pubKey =
     wrapAuthError ''could not validate public key credentials: %v''
       (validatePublicKeyCredentials env conn pubKey)"

definition KeyboardInteractiveCallback ::
  "'a auth_env_scheme \<Rightarrow> string \<Rightarrow> ConnMetadata \<Rightarrow> event list \<times> (error + Permissions)" where
  "KeyboardInteractiveCallback env program conn =
     wrapAuthError ''could not validate keyboard interactive credentials: %v''
       (validateKeyboardInteractiveCredentials env program conn)"

text \<open>The two metrics of the authentication adapter.\<close>

fun is_login_metric :: "event \<Rightarrow> bool" where
  "is_login_metric (AddLoginAttempt m) = True"
| "is_login_metric (AddLoginResult m e) = True"
| "is_login_metric _ = False"

section \<open>Server configuration\<close>

record Key =
  PrivateKey :: string

record Configuration =
  Banner :: string
  BindPort :: int
  BindAddress :: string
  IdleTimeout :: int
  MaxAuthTries :: int
  Umask :: string
  UploadMode :: int
  Keys :: "Key list"
  IsSCPEnabled :: bool
  KexAlgorithms :: "string list"
  Ciphers :: "string list"
  MACs :: "string list"
  LoginBannerFile :: string
  SetstatMode :: int
  EnabledSSHCommands :: "string list"
  KeyboardInteractiveProgram :: string
  ProxyProtocol :: int
  ProxyAllowed :: "string list"

text \<open>
  The fields of the SSH server configuration that \<^verbatim>\<open>Initialize\<close> sets. The password and
  the public-key callback are always installed; for the keyboard-interactive callback
  the record says whether it is.
\<close>

record ServerConfig =
  NoClientAuth :: bool
  SrvMaxAuthTries :: int
  ServerVersion :: string
  HostKeys :: "string list"
  KeyExchanges :: "string list"
  SrvCiphers :: "string list"
  SrvMACs :: "string list"
  KeyboardInteractiveCallbackSet :: bool
  BannerCallback :: "string option"

section \<open>The PROXY protocol listener\<close>

text \<open>
  The four policies of the PROXY protocol library; what each means for a connection is
  defined below.
\<close>

datatype proxyproto_Policy = USE | IGNORE | REJECT | REQUIRE

type_synonym PolicyFunc = "string \<Rightarrow> proxyproto_Policy \<times> error option"

record proxyproto_Listener =
  Listener :: nat
  Policy :: "PolicyFunc option"

text \<open>
  The library's two allow-list policies, as the comment on \<^verbatim>\<open>ProxyAllowed\<close> describes them:
  a peer in the list may send the header; for any other peer the lax policy ignores the
  header and the strict policy rejects the connection. Both fail when an entry of the list
  does not parse. Parsing the list (addresses and ranges) is the argument \<open>parse\<close>, which
  yields the membership test for peers.
\<close>

definition whitelistPolicy :: "(string \<Rightarrow> bool) \<Rightarrow> proxyproto_Policy \<Rightarrow> PolicyFunc" where
  "whitelistPolicy allowFrom def =
     (\<lambda>upstream. if allowFrom upstream then (USE, None) else (def, None))"

definition LaxWhiteListPolicy ::
  "(string list \<Rightarrow> error + (string \<Rightarrow> bool)) \<Rightarrow> string list \<Rightarrow> error + PolicyFunc" where
  "LaxWhiteListPolicy parse allowed =
     (case parse allowed of
        Inl err \<Rightarrow> Inl err
      | Inr allowFrom \<Rightarrow> Inr (whitelistPolicy allowFrom IGNORE))"

definition StrictWhiteListPolicy ::
  "(string list \<Rightarrow> error + (string \<Rightarrow> bool)) \<Rightarrow> string list \<Rightarrow> error + PolicyFunc" where
  "StrictWhiteListPolicy parse allowed =
     (case parse allowed of
        Inl err \<Rightarrow> Inl err
      | Inr allowFrom \<Rightarrow> Inr (whitelistPolicy allowFrom REJECT))"

definition getProxyListener ::
  "(string list \<Rightarrow> error + (string \<Rightarrow> bool)) \<Rightarrow> Configuration \<Rightarrow> nat \<Rightarrow>
     error + proxyproto_Listener option" where
  "getProxyListener parse c listener =
     (if ProxyProtocol c > 0 then
        (case (if ProxyProtocol c = 1 \<and> length (ProxyAllowed c) > 0 then
                 (case LaxWhiteListPolicy parse (ProxyAllowed c) of
                    Inl err \<Rightarrow> Inl err
                  | Inr policyFunc \<Rightarrow> Inr (Some policyFunc))
               else Inr None) of
           Inl err \<Rightarrow> Inl err
         | Inr laxFunc \<Rightarrow>
             (case (if ProxyProtocol c = 2 then
                      (if length (ProxyAllowed c) = 0 then
                         Inr (Some (\<lambda>upstream. (REQUIRE, None)))
                       else
                         (case StrictWhiteListPolicy parse (ProxyAllowed c) of
                            Inl err \<Rightarrow> Inl err
                          | Inr policyFunc \<Rightarrow> Inr (Some policyFunc)))
                    else Inr laxFunc) of
                Inl err \<Rightarrow> Inl err
              | Inr policyFunc \<Rightarrow> Inr (Some \<lparr>Listener = listener, Policy = policyFunc\<rparr>)))
      else Inr None)"

text \<open>The policy of a wrapped listener for a peer; \<open>USE\<close> when no policy is set.\<close>

definition policyFor :: "proxyproto_Listener \<Rightarrow> string \<Rightarrow> proxyproto_Policy \<times> error option" where
  "policyFor pl upstream =
     (case Policy pl of None \<Rightarrow> (USE, None) | Some policyFunc \<Rightarrow> policyFunc upstream)"






section \<open>The accept loop\<close>

text \<open>
  One iteration: accept on the PROXY listener when there is one, on the raw listener
  otherwise; start the handshake task when a socket and no error came back. The result
  of \<^verbatim>\<open>Accept\<close> is the pair of the socket and the error.
\<close>

definition acceptOnce :: "proxyproto_Listener option \<Rightarrow> nat option \<times> error option \<Rightarrow> event list" where
  "acceptOnce proxyListener r =
     (if proxyListener \<noteq> None then [ProxyListenerAccept] else [ListenerAccept]) @
     (case r of
        (Some conn, None) \<Rightarrow> [GoAcceptInboundConnection conn]
      | _ \<Rightarrow> [])"

text \<open>
  The loop has no exit. \<open>acceptLoop pl accepts n\<close> is the loop after \<open>n\<close> iterations,
  where \<open>accepts i\<close> is what the \<open>i\<close>-th \<^verbatim>\<open>Accept\<close> returns: the actions so far, and
  \<open>None\<close> while the loop is still running.
\<close>

fun acceptLoop ::
  "proxyproto_Listener option \<Rightarrow> (nat \<Rightarrow> nat option \<times> error option) \<Rightarrow> nat \<Rightarrow>
     event list \<times> error option" where
  "acceptLoop proxyListener accepts 0 = ([], None)"
| "acceptLoop proxyListener accepts (Suc n) =
     (case acceptLoop proxyListener accepts n of
        (evs, None) \<Rightarrow> (evs @ acceptOnce proxyListener (accepts n), None)
      | (evs, Some err) \<Rightarrow> (evs, Some err))"

section \<open>Channels and channel requests\<close>

record Request =
  Type :: string
  Payload :: string

record NewChannel =
  ChannelType :: string
  ChannelNo :: nat
  AcceptResult :: "error + Request list"

text \<open>
  One pass of the request loop of an accepted channel. \<^verbatim>\<open>req.Payload[4:]\<close> panics when
  the payload has fewer than four bytes; the panic is the result \<open>Inl\<close>, and no reply is
  sent. \<^verbatim>\<open>processSSHCommand\<close> is defined outside \<^verbatim>\<open>server.go\<close> and is an argument.
\<close>

definition handleRequest ::
  "(string \<Rightarrow> Connection \<Rightarrow> nat \<Rightarrow> string list \<Rightarrow> bool) \<Rightarrow> string list \<Rightarrow> nat \<Rightarrow> Connection \<Rightarrow> Request \<Rightarrow>
     event list \<times> (string + Connection)" where
  "handleRequest processSSHCommand enabled ch connection req =
     (if Type req = ''subsystem'' then
        (if length (Payload req) < 4 then
           ([], Inl ''runtime error: slice bounds out of range'')
         else if drop 4 (Payload req) = ''sftp'' then
           ([GoHandleSftpConnection ch (ID connection), Reply ch True],
            Inr (connection\<lparr>protocol := Some protocolSFTP, channel := Some ch\<rparr>))
         else ([Reply ch False], Inr connection))
      else if Type req = ''exec'' then
        ([ExecCommand ch, Reply ch (processSSHCommand (Payload req) connection ch enabled)],
         Inr connection)
      else ([Reply ch False], Inr connection))"

text \<open>The task started for an accepted channel: \<^verbatim>\<open>for req := range in\<close>.\<close>

fun channelRequests ::
  "(string \<Rightarrow> Connection \<Rightarrow> nat \<Rightarrow> string list \<Rightarrow> bool) \<Rightarrow> string list \<Rightarrow> nat \<Rightarrow> Connection \<Rightarrow> Request list \<Rightarrow>
     event list \<times> completion" where
  "channelRequests processSSHCommand enabled ch connection [] = ([], Returned)"
| "channelRequests processSSHCommand enabled ch connection (req # reqs) =
     (case handleRequest processSSHCommand enabled ch connection req of
        (evs, Inl msg) \<Rightarrow> (evs, Panicked msg)
      | (evs, Inr connection') \<Rightarrow>
          (case channelRequests processSSHCommand enabled ch connection' reqs of
             (evs', result) \<Rightarrow> (evs @ evs', result)))"

text \<open>What the connection task does with one new channel.\<close>

definition dispatchChannel :: "NewChannel \<Rightarrow> event list" where
  "dispatchChannel newChannel =
     (if ChannelType newChannel \<noteq> ''session'' then
        [Log LevelDebug ''received an unknown channel type: %v'',
         ChannelReject (ChannelNo newChannel) UnknownChannelType ''unknown channel type'']
      else
        (case AcceptResult newChannel of
           Inl err \<Rightarrow>
             [ChannelAccept (ChannelNo newChannel), Log LevelWarn ''could not accept a channel: %v'']
         | Inr requests \<Rightarrow>
             [ChannelAccept (ChannelNo newChannel), GoChannelRequests (ChannelNo newChannel)]))"

text \<open>\<^verbatim>\<open>for newChannel := range chans\<close>.\<close>

fun dispatchChannels :: "NewChannel list \<Rightarrow> event list" where
  "dispatchChannels [] = []"
| "dispatchChannels (newChannel # chans) = dispatchChannel newChannel @ dispatchChannels chans"

section \<open>The handshake engine\<close>

record ServerConn =
  ConnPermissions :: Permissions
  SessionID :: string
  SrvClientVersion :: string








text \<open>
  The other calls of \<^verbatim>\<open>AcceptInboundConnection\<close> that leave \<^verbatim>\<open>server.go\<close>.
  \<^verbatim>\<open>json.Unmarshal\<close> leaves a zero-valued user when it fails; its error is ignored.
\<close>

record conn_env =
  json_Unmarshal :: "string \<Rightarrow> User"
  hex_EncodeToString :: "string \<Rightarrow> string"
  GetFilesystem :: "User \<Rightarrow> string \<Rightarrow> error option"
  IPFromRemoteAddress :: "string \<Rightarrow> string"


definition extension :: "Permissions \<Rightarrow> string \<Rightarrow> string" where
  "extension p k = (case Extensions p k of None \<Rightarrow> [] | Some v \<Rightarrow> v)"


text \<open>The connection value that the channel tasks of a connection share.\<close>

definition newConnection :: "conn_env \<Rightarrow> string \<Rightarrow> ServerConn \<Rightarrow> Connection" where
  "newConnection env remoteAddr sconn =
     \<lparr>ID = hex_EncodeToString env (SessionID sconn),
      ConnUser = json_Unmarshal env (extension (ConnPermissions sconn) ''user''),
      ClientVersion = SrvClientVersion sconn,
      RemoteAddr = remoteAddr,
      protocol = None,
      channel = None\<rparr>"

section \<open>Host keys and start-up\<close>

definition defaultPrivateRSAKeyName :: string where
  "defaultPrivateRSAKeyName = ''id_rsa''"

definition defaultPrivateECDSAKeyName :: string where
  "defaultPrivateECDSAKeyName = ''id_ecdsa''"

text \<open>
  The files that start-up looks at. \<^verbatim>\<open>os.Stat\<close> reports a missing file (\<open>NotExist\<close>)
  with an error that \<^verbatim>\<open>os.IsNotExist\<close> recognises; a file that is there but cannot be read
  is \<open>Unreadable\<close>.
\<close>

datatype file_state = NotExist | Unreadable | Content string

type_synonym filesystem = "string \<Rightarrow> file_state"

definition ioutil_ReadFile :: "filesystem \<Rightarrow> string \<Rightarrow> error + string" where
  "ioutil_ReadFile fs name =
     (case fs name of
        Content bytes \<Rightarrow> Inr bytes
      | NotExist \<Rightarrow> Inl ErrNotExist
      | Unreadable \<Rightarrow> Inl ErrPermission)"

definition os_Stat :: "filesystem \<Rightarrow> string \<Rightarrow> error option" where
  "os_Stat fs name =
     (case fs name of
        Content bytes \<Rightarrow> None
      | NotExist \<Rightarrow> Some ErrNotExist
      | Unreadable \<Rightarrow> Some ErrPermission)"

definition os_IsNotExist :: "error option \<Rightarrow> bool" where
  "os_IsNotExist err = (err = Some ErrNotExist)"

text \<open>
  The calls of start-up that leave \<^verbatim>\<open>server.go\<close>. Modelled from the spec: the two key
  generators are in the utilities package; the spec says that missing files are generated
  in place, so a successful generator yields the contents of the private-key file it
  writes at the given path. Whatever else a generator writes is not part of the model.
\<close>

record host_env =
  IsAbs :: "string \<Rightarrow> bool"
  filepath_Join :: "string \<Rightarrow> string \<Rightarrow> string"
  ParseUint :: "string \<Rightarrow> error + nat"
  GenerateRSAKeys :: "string \<Rightarrow> error + string"
  GenerateECDSAKeys :: "string \<Rightarrow> error + string"
  ParsePrivateKey :: "string \<Rightarrow> error + string"
  SFTPExtensionsError :: "error option"
  supportedSSHCommands :: "string list"
  net_Listen :: "string \<Rightarrow> int \<Rightarrow> error + nat"
  parseAllowed :: "string list \<Rightarrow> error + (string \<Rightarrow> bool)"

text \<open>The loop of \<^verbatim>\<open>checkHostKeys\<close> over the default key names.\<close>

fun useDefaultKeys ::
  "host_env \<Rightarrow> string \<Rightarrow> string list \<Rightarrow> filesystem \<Rightarrow> Key list \<Rightarrow>
     event list \<times> filesystem \<times> Key list \<times> error option" where
  "useDefaultKeys env configDir [] fs keys = ([], fs, keys, None)"
| "useDefaultKeys env configDir (k # ks) fs keys =
     (let autoFile = filepath_Join env configDir k in
      if os_IsNotExist (os_Stat fs autoFile) then
        (case (if k = defaultPrivateRSAKeyName then GenerateRSAKeys env autoFile
               else GenerateECDSAKeys env autoFile) of
           Inl err \<Rightarrow>
             ([Log LevelInfo ''No host keys configured and %#v does not exist; creating new key for server'',
               LogToConsole LevelInfo ''No host keys configured and %#v does not exist; creating new key for server'',
               GenerateKey autoFile],
              fs, keys, Some err)
         | Inr bytes \<Rightarrow>
             (case useDefaultKeys env configDir ks (fs(autoFile := Content bytes))
                     (keys @ [\<lparr>PrivateKey = k\<rparr>]) of
                (evs, rest) \<Rightarrow>
                  ([Log LevelInfo ''No host keys configured and %#v does not exist; creating new key for server'',
                    LogToConsole LevelInfo ''No host keys configured and %#v does not exist; creating new key for server'',
                    GenerateKey autoFile] @ evs,
                   rest)))
      else useDefaultKeys env configDir ks fs (keys @ [\<lparr>PrivateKey = k\<rparr>]))"

definition checkHostKeys ::
  "host_env \<Rightarrow> Configuration \<Rightarrow> string \<Rightarrow> filesystem \<Rightarrow>
     event list \<times> filesystem \<times> Configuration \<times> error option" where
  "checkHostKeys env c configDir fs =
     (if length (Keys c) = 0 then
        (case useDefaultKeys env configDir
                [defaultPrivateRSAKeyName, defaultPrivateECDSAKeyName] fs (Keys c) of
           (evs, fs', keys, err) \<Rightarrow> (evs, fs', c\<lparr>Keys := keys\<rparr>, err))
      else ([], fs, c, None))"

definition privateFilePath :: "host_env \<Rightarrow> string \<Rightarrow> string \<Rightarrow> string" where
  "privateFilePath env configDir privateFile =
     (if \<not> IsAbs env privateFile then filepath_Join env configDir privateFile else privateFile)"

text \<open>The loop of \<^verbatim>\<open>Initialize\<close> that reads and parses every configured key.\<close>

fun loadHostKeys ::
  "host_env \<Rightarrow> string \<Rightarrow> filesystem \<Rightarrow> Key list \<Rightarrow> ServerConfig \<Rightarrow>
     event list \<times> (error + ServerConfig)" where
  "loadHostKeys env configDir fs [] serverConfig = ([], Inr serverConfig)"
| "loadHostKeys env configDir fs (k # ks) serverConfig =
     (case ioutil_ReadFile fs (privateFilePath env configDir (PrivateKey k)) of
        Inl err \<Rightarrow> ([Log LevelInfo ''Loading private key: %s''], Inl err)
      | Inr privateBytes \<Rightarrow>
          (case ParsePrivateKey env privateBytes of
             Inl err \<Rightarrow> ([Log LevelInfo ''Loading private key: %s''], Inl err)
           | Inr private \<Rightarrow>
               (case loadHostKeys env configDir fs ks
                       (serverConfig\<lparr>HostKeys := HostKeys serverConfig @ [private]\<rparr>) of
                  (evs, r) \<Rightarrow> (Log LevelInfo ''Loading private key: %s'' # evs, r))))"

definition configureSecurityOptions :: "Configuration \<Rightarrow> ServerConfig \<Rightarrow> ServerConfig" where
  "configureSecurityOptions c serverConfig =
     (let sc1 = (if length (KexAlgorithms c) > 0
                 then serverConfig\<lparr>KeyExchanges := KexAlgorithms c\<rparr> else serverConfig);
          sc2 = (if length (Ciphers c) > 0 then sc1\<lparr>SrvCiphers := Ciphers c\<rparr> else sc1)
      in if length (MACs c) > 0 then sc2\<lparr>SrvMACs := MACs c\<rparr> else sc2)"

definition configureKeyboardInteractiveAuth ::
  "host_env \<Rightarrow> Configuration \<Rightarrow> filesystem \<Rightarrow> ServerConfig \<Rightarrow> event list \<times> ServerConfig" where
  "configureKeyboardInteractiveAuth env c fs serverConfig =
     (if length (KeyboardInteractiveProgram c) = 0 then ([], serverConfig)
      else if \<not> IsAbs env (KeyboardInteractiveProgram c) then
        ([LogToConsole LevelWarn ''invalid keyboard interactive authentication program: %#v must be an absolute path'',
          Log LevelWarn ''invalid keyboard interactive authentication program: %#v must be an absolute path''],
         serverConfig)
      else if os_Stat fs (KeyboardInteractiveProgram c) \<noteq> None then
        ([LogToConsole LevelWarn ''invalid keyboard interactive authentication program:: %v'',
          Log LevelWarn ''invalid keyboard interactive authentication program:: %v''],
         serverConfig)
      else ([], serverConfig\<lparr>KeyboardInteractiveCallbackSet := True\<rparr>))"

definition configureLoginBanner ::
  "host_env \<Rightarrow> Configuration \<Rightarrow> string \<Rightarrow> filesystem \<Rightarrow> ServerConfig \<Rightarrow> event list \<times> ServerConfig" where
  "configureLoginBanner env c configDir fs serverConfig =
     (if length (LoginBannerFile c) > 0 then
        (case ioutil_ReadFile fs (privateFilePath env configDir (LoginBannerFile c)) of
           Inr banner \<Rightarrow> ([], serverConfig\<lparr>BannerCallback := Some banner\<rparr>)
         | Inl err \<Rightarrow>
             ([LogToConsole LevelWarn ''unable to read login banner file: %v'',
               Log LevelWarn ''unable to read login banner file: %v''],
              serverConfig))
      else ([], serverConfig))"

definition sftpExtensions :: "string list" where
  "sftpExtensions = [''posix-rename@openssh.com'']"

definition configureSFTPExtensions :: "host_env \<Rightarrow> event list" where
  "configureSFTPExtensions env =
     SetSFTPExtensions sftpExtensions #
     (if SFTPExtensionsError env \<noteq> None then
        [LogToConsole LevelWarn ''unable to configure SFTP extensions: %v'',
         Log LevelWarn ''unable to configure SFTP extensions: %v'']
      else [])"

definition checkSSHCommands :: "host_env \<Rightarrow> Configuration \<Rightarrow> event list \<times> Configuration" where
  "checkSSHCommands env c =
     (if ''*'' \<in> set (EnabledSSHCommands c) then
        ([], c\<lparr>EnabledSSHCommands := supportedSSHCommands env\<rparr>)
      else
        (concat (map (\<lambda>command.
                   if command \<in> set (supportedSSHCommands env) then []
                   else [Log LevelWarn ''unsupported ssh command: %#v ignored'',
                         LogToConsole LevelWarn ''unsupported ssh command: %#v ignored''])
                 (EnabledSSHCommands c)),
         c\<lparr>EnabledSSHCommands :=
             (if IsSCPEnabled c then [''scp''] else []) @
             filter (\<lambda>command. command \<in> set (supportedSSHCommands env)) (EnabledSSHCommands c)\<rparr>))"

definition checkIdleTimer :: "Configuration \<Rightarrow> event list" where
  "checkIdleTimer c = (if IdleTimeout c > 0 then [StartIdleTimer (IdleTimeout c)] else [])"

text \<open>What \<^verbatim>\<open>Initialize\<close> has when it enters the accept loop.\<close>

record startup =
  StartConfig :: Configuration
  StartServerConfig :: ServerConfig
  StartListener :: nat
  StartProxyListener :: "proxyproto_Listener option"
  uploadMode :: int
  setstatMode :: int
  StartFiles :: filesystem

text \<open>
  \<^verbatim>\<open>Initialize\<close> up to the accept loop: either the error it returns, or the state in
  which it starts accepting.
\<close>

definition Initialize_startup ::
  "host_env \<Rightarrow> Configuration \<Rightarrow> string \<Rightarrow> filesystem \<Rightarrow> event list \<times> (error + startup)" where
  "Initialize_startup env c configDir fs =
     (let umaskEvents =
            (case ParseUint env (Umask c) of
               Inr umask \<Rightarrow> [SetUmask umask]
             | Inl err \<Rightarrow>
                 [Log LevelWarn ''error reading umask, please fix your config file: %v'',
                  LogToConsole LevelWarn ''error reading umask, please fix your config file: %v'']);
          serverConfig =
            \<lparr>NoClientAuth = False, SrvMaxAuthTries = MaxAuthTries c,
             ServerVersion = ''SSH-2.0-'' @ Banner c, HostKeys = [], KeyExchanges = [],
             SrvCiphers = [], SrvMACs = [], KeyboardInteractiveCallbackSet = False,
             BannerCallback = None\<rparr>
      in case checkHostKeys env c configDir fs of
           (keyEvents, fs1, c1, Some err) \<Rightarrow> (umaskEvents @ keyEvents, Inl err)
         | (keyEvents, fs1, c1, None) \<Rightarrow>
             (case loadHostKeys env configDir fs1 (Keys c1) serverConfig of
                (loadEvents, Inl err) \<Rightarrow> (umaskEvents @ keyEvents @ loadEvents, Inl err)
              | (loadEvents, Inr sc1) \<Rightarrow>
                  (let sc2 = configureSecurityOptions c1 sc1;
                       (kbEvents, sc3) = configureKeyboardInteractiveAuth env c1 fs1 sc2;
                       (bannerEvents, sc4) = configureLoginBanner env c1 configDir fs1 sc3;
                       extEvents = configureSFTPExtensions env;
                       (cmdEvents, c2) = checkSSHCommands env c1;
                       pre = umaskEvents @ keyEvents @ loadEvents @ kbEvents @ bannerEvents @
                             extEvents @ cmdEvents @ [NetListen (BindAddress c2) (BindPort c2)]
                   in case net_Listen env (BindAddress c2) (BindPort c2) of
                        Inl err \<Rightarrow>
                          (pre @ [Log LevelWarn ''error starting listener on address %s:%d: %v''],
                           Inl err)
                      | Inr listener \<Rightarrow>
                          (case getProxyListener (parseAllowed env) c2 listener of
                             Inl err \<Rightarrow>
                               (pre @ [Log LevelWarn ''error enabling proxy listener: %v''], Inl err)
                           | Inr proxyListener \<Rightarrow>
                               (pre @
                                [Log LevelInfo ''server listener registered address: %v''] @
                                checkIdleTimer c2,
                                Inr \<lparr>StartConfig = c2, StartServerConfig = sc4,
                                     StartListener = listener,
                                     StartProxyListener = proxyListener,
                                     uploadMode = UploadMode c2, setstatMode = SetstatMode c2,
                                     StartFiles = fs1\<rparr>)))))"

text \<open>
  \<^verbatim>\<open>Initialize\<close>: start-up, then the accept loop. The result after \<open>n\<close> iterations of the
  loop is the error returned by start-up, or \<open>None\<close> while the server is accepting.
\<close>

definition Initialize ::
  "host_env \<Rightarrow> Configuration \<Rightarrow> string \<Rightarrow> filesystem \<Rightarrow> (nat \<Rightarrow> nat option \<times> error option) \<Rightarrow> nat \<Rightarrow>
     event list \<times> error option" where
  "Initialize env c configDir fs accepts n =
     (case Initialize_startup env c configDir fs of
        (evs, Inl err) \<Rightarrow> (evs, Some err)
      | (evs, Inr st) \<Rightarrow>
          (case acceptLoop (StartProxyListener st) accepts n of
             (evs', r) \<Rightarrow> (evs @ evs', r)))"


section \<open>Classes of actions\<close>

text \<open>The kinds of action that the properties below speak about.\<close>

fun is_connection_failed_log :: "event \<Rightarrow> bool" where
  "is_connection_failed_log (ConnectionFailedLog u ip m e) = True"
| "is_connection_failed_log _ = False"


fun is_log :: "event \<Rightarrow> bool" where
  "is_log (Log l m) = True"
| "is_log (LogToConsole l m) = True"
| "is_log (ConnectionFailedLog u ip m e) = True"
| "is_log _ = False"

fun is_reply :: "event \<Rightarrow> bool" where
  "is_reply (Reply ch ok) = True"
| "is_reply _ = False"




section \<open>Concrete inputs\<close>

definition alice :: User where
  "alice = \<lparr>Username = ''alice'', HomeDir = ''/home/alice'', MaxSessions = 2\<rparr>"

definition alice_connection :: Connection where
  "alice_connection =
     \<lparr>ID = ''c0ffee'', ConnUser = alice, ClientVersion = ''SSH-2.0-OpenSSH_8.2'',
      RemoteAddr = ''192.0.2.7:50022'', protocol = Some protocolSFTP, channel = Some 7\<rparr>"

definition bob :: User where
  "bob = \<lparr>Username = ''bob'', HomeDir = ''srv/bob'', MaxSessions = 0\<rparr>"

text \<open>
  An environment for the login policy: Unix absolute paths, one open session per user,
  keyboard-interactive logins refused, every address allowed, and a serialisation that
  always succeeds.
\<close>

definition sample_login_env :: login_env where
  "sample_login_env =
     \<lparr>filepath_IsAbs = (\<lambda>p. take 1 p = ''/''),
      getActiveSessions = (\<lambda>u. 1),
      IsLoginMethodAllowed = (\<lambda>u m. m \<noteq> ''keyboard-interactive''),
      IsLoginFromAddrAllowed = (\<lambda>u a. True),
      json_Marshal = (\<lambda>u. Inr (''{username:'' @ Username u @ '',home_dir:'' @ HomeDir u @ ''}''))\<rparr>"

text \<open>
  A configuration with the PROXY protocol switched off; the examples below change single
  fields of it.
\<close>

definition sample_config :: Configuration where
  "sample_config =
     \<lparr>Banner = ''SFTPGo'', BindPort = 2022, BindAddress = [], IdleTimeout = 15,
      MaxAuthTries = 0, Umask = ''0022'', UploadMode = 0, Keys = [], IsSCPEnabled = False,
      KexAlgorithms = [], Ciphers = [], MACs = [], LoginBannerFile = [], SetstatMode = 0,
      EnabledSSHCommands = [''md5sum'', ''sha1sum'', ''cd'', ''pwd''],
      KeyboardInteractiveProgram = [], ProxyProtocol = 0, ProxyAllowed = []\<rparr>"

text \<open>An allow-list parser: the entry \<open>bad\<close> does not parse; a peer is allowed when listed.\<close>

definition sample_parse :: "string list \<Rightarrow> error + (string \<Rightarrow> bool)" where
  "sample_parse allowed =
     (if ''bad'' \<in> set allowed then Inl (errorString ''invalid address'')
      else Inr (\<lambda>peer. peer \<in> set allowed))"


definition x11_channel :: NewChannel where
  "x11_channel = \<lparr>ChannelType = ''x11'', ChannelNo = 3, AcceptResult = Inr []\<rparr>"

text \<open>An exec router that refuses every command.\<close>

definition refuse_exec :: "string \<Rightarrow> Connection \<Rightarrow> nat \<Rightarrow> string list \<Rightarrow> bool" where
  "refuse_exec payload connection ch enabled = False"

text \<open>
  A host: Unix paths, key generators that succeed, a key parser that refuses the
  contents \<open>garbage\<close>, and a listener that binds.
\<close>

definition sample_host_env :: host_env where
  "sample_host_env =
     \<lparr>IsAbs = (\<lambda>p. take 1 p = ''/''),
      filepath_Join = (\<lambda>dir name. dir @ ''/'' @ name),
      ParseUint = (\<lambda>s. Inr 18),
      GenerateRSAKeys = (\<lambda>file. Inr ''new RSA key''),
      GenerateECDSAKeys = (\<lambda>file. Inr ''new ECDSA key''),
      ParsePrivateKey = (\<lambda>bytes. if bytes = ''garbage'' then Inl (errorString ''ssh: no key found'')
                                   else Inr bytes),
      SFTPExtensionsError = None,
      supportedSSHCommands = [''scp'', ''md5sum'', ''sha1sum'', ''cd'', ''pwd''],
      net_Listen = (\<lambda>address port. Inr 1),
      parseAllowed = sample_parse\<rparr>"

text \<open>A configuration directory that holds an RSA key and no ECDSA key.\<close>

definition sample_files :: filesystem where
  "sample_files =
     (\<lambda>name. if name = ''/etc/sftpgo/id_rsa'' then Content ''old RSA key''
             else if name = ''/etc/sftpgo/broken'' then Content ''garbage''
             else NotExist)"

text \<open>
  An identity provider that knows the password of \<open>alice\<close>, accepts no public key and
  passes every keyboard-interactive dialogue; the login policy is that of
  \<open>sample_login_env\<close>.
\<close>

definition sample_auth_env :: auth_env where
  "sample_auth_env =
     \<lparr>filepath_IsAbs = (\<lambda>p. take 1 p = ''/''),
      getActiveSessions = (\<lambda>u. 1),
      IsLoginMethodAllowed = (\<lambda>u m. m \<noteq> ''keyboard-interactive''),
      IsLoginFromAddrAllowed = (\<lambda>u a. True),
      json_Marshal = (\<lambda>u. Inr (''{username:'' @ Username u @ '',home_dir:'' @ HomeDir u @ ''}'')),
      CheckUserAndPass = (\<lambda>u p. if u = ''alice'' \<and> p = ''secret'' then Inr alice
                                   else Inl (errorString ''invalid credentials'')),
      CheckUserAndPubKey = (\<lambda>u k. Inl (errorString ''invalid credentials'')),
      CheckKeyboardInteractiveAuth = (\<lambda>u program. Inr alice),
      GetIPFromRemoteAddress = (\<lambda>a. takeWhile (\<lambda>ch. ch \<noteq> CHR '':'') a)\<rparr>"

definition alice_conn :: ConnMetadata where
  "alice_conn = \<lparr>MetaUser = ''alice'', MetaRemoteAddr = ''192.0.2.7:50022''\<rparr>"





section \<open>Properties of the SFTP serving task\<close>

lemma registry_step_other: "\<not> is_registry_event e \<Longrightarrow> registry_step reg e = reg"
  by (cases e) simp_all

lemma registry_after_other:
  "\<forall>e \<in> set evs. \<not> is_registry_event e \<Longrightarrow> registry_after reg evs = reg"
  unfolding registry_after_def
  by (induction evs arbitrary: reg) (simp_all add: registry_step_other)

lemma registry_after_append:
  "registry_after reg (xs @ ys) = registry_after (registry_after reg xs) ys"
  by (simp add: registry_after_def)

lemma serveRequests_no_registry_event:
  "serveRequests serve ch connection = (body, result) \<Longrightarrow> e \<in> set body \<Longrightarrow> \<not> is_registry_event e"
  by (auto simp: serveRequests_def split: serve_outcome.splits if_splits)

lemma bracket_registry:
  assumes body: "\<forall>e \<in> set body. \<not> is_registry_event e"
    and split: "AddConnection c # body @ [RemoveConnection c] = pre @ post"
    and started: "pre \<noteq> []"
  shows "c \<in> registry_after reg pre \<longleftrightarrow> post \<noteq> []"
proof (cases post rule: rev_cases)
  case Nil
  with split have "pre = [AddConnection c] @ body @ [RemoveConnection c]" by simp
  moreover have "registry_after (insert c reg) body = insert c reg"
    using body by (rule registry_after_other)
  ultimately have "registry_after reg pre = insert c reg - {c}"
    by (simp add: registry_after_def)
  with Nil show ?thesis by simp
next
  case (snoc post' l)
  with split have eq: "AddConnection c # body = pre @ post'" by simp
  from started obtain pre' where pre: "pre = AddConnection c # pre'"
    using eq by (cases pre) auto
  with eq have "body = pre' @ post'" by simp
  with body have "\<forall>e \<in> set pre'. \<not> is_registry_event e" by simp
  then have "registry_after (insert c reg) pre' = insert c reg"
    by (rule registry_after_other)
  then have "registry_after reg pre = insert c reg"
    unfolding pre by (simp add: registry_after_def)
  with snoc show ?thesis by simp
qed

text \<open>
  Claim C1. The serving task registers the connection as its first action and removes it
  as its last action, however serving ends (return, error or panic), and nothing in
  between touches the registry. So at every point of the task after its start the
  connection is in the live-connection set exactly while the task has not finished; and
  when the connection was not registered before the task, it is in the set exactly at
  the points strictly between the start and the end of the task. A point of the task is
  a split of its actions into those done (\<open>pre\<close>) and those to come (\<open>post\<close>).
\<close>

theorem handleSftpConnection_registration:
  assumes run: "handleSftpConnection serve ch connection = (evs, result)"
  shows "(\<exists>body. evs = AddConnection (ID connection) # body @ [RemoveConnection (ID connection)]
             \<and> (\<forall>e \<in> set body. \<not> is_registry_event e))
       \<and> (\<forall>pre post. evs = pre @ post \<longrightarrow> pre \<noteq> [] \<longrightarrow>
             (ID connection \<in> registry_after reg pre \<longleftrightarrow> post \<noteq> []))
       \<and> (ID connection \<notin> reg \<longrightarrow>
             (\<forall>pre post. evs = pre @ post \<longrightarrow>
                (ID connection \<in> registry_after reg pre \<longleftrightarrow> pre \<noteq> [] \<and> post \<noteq> [])))"
proof -
  obtain body where sr: "serveRequests serve ch connection = (body, result)"
    and evs: "evs = AddConnection (ID connection) # body @ [RemoveConnection (ID connection)]"
    using run by (auto simp: handleSftpConnection_def split: prod.splits)
  have body: "\<forall>e \<in> set body. \<not> is_registry_event e"
    using serveRequests_no_registry_event [OF sr] by blast
  have during: "ID connection \<in> registry_after reg pre \<longleftrightarrow> post \<noteq> []"
    if "evs = pre @ post" "pre \<noteq> []" for pre post
    using bracket_registry [OF body _ that(2)] that(1) evs by simp
  have before: "registry_after reg [] = reg"
    by (simp add: registry_after_def)
  show ?thesis
  proof (intro conjI allI impI)
    show "\<exists>body. evs = AddConnection (ID connection) # body @ [RemoveConnection (ID connection)]
             \<and> (\<forall>e \<in> set body. \<not> is_registry_event e)"
      using evs body by blast
  next
    fix pre post assume "evs = pre @ post" "pre \<noteq> []"
    then show "ID connection \<in> registry_after reg pre \<longleftrightarrow> post \<noteq> []" by (rule during)
  next
    fix pre post assume fresh: "ID connection \<notin> reg" and sp: "evs = pre @ post"
    show "ID connection \<in> registry_after reg pre \<longleftrightarrow> pre \<noteq> [] \<and> post \<noteq> []"
    proof (cases "pre = []")
      case True
      with fresh before show ?thesis by simp
    next
      case False
      with during [OF sp] show ?thesis by simp
    qed
  qed
qed

theorem handleSftpConnection_registration_witness:
  "''c0ffee'' \<in> registry_after {} [AddConnection ''c0ffee'', CreateHandler ''c0ffee'', NewRequestServer 7, ServeCall 7]
   \<and> ''c0ffee'' \<notin> registry_after {} (fst (handleSftpConnection (ServePanics ''handler failed'') 7 alice_connection))
   \<and> snd (handleSftpConnection (ServePanics ''handler failed'') 7 alice_connection) = Panicked ''handler failed''"
proof -
  have run: "handleSftpConnection (ServePanics ''handler failed'') 7 alice_connection =
      ([AddConnection ''c0ffee'', CreateHandler ''c0ffee'', NewRequestServer 7, ServeCall 7,
        RemoveConnection ''c0ffee''], Panicked ''handler failed'')"
    by (simp add: handleSftpConnection_def serveRequests_def alice_connection_def)
  have fresh: "ID alice_connection \<notin> {}" by simp
  note reg = handleSftpConnection_registration [OF run, of "{}", THEN conjunct2, THEN conjunct2, rule_format, OF fresh]
  have a: "ID alice_connection \<in> registry_after {} [AddConnection ''c0ffee'', CreateHandler ''c0ffee'', NewRequestServer 7, ServeCall 7]"
    using reg [of "[AddConnection ''c0ffee'', CreateHandler ''c0ffee'', NewRequestServer 7, ServeCall 7]" "[RemoveConnection ''c0ffee'']"]
    by simp
  have b: "ID alice_connection \<notin> registry_after {} [AddConnection ''c0ffee'', CreateHandler ''c0ffee'', NewRequestServer 7, ServeCall 7, RemoveConnection ''c0ffee'']"
    using reg [of "[AddConnection ''c0ffee'', CreateHandler ''c0ffee'', NewRequestServer 7, ServeCall 7, RemoveConnection ''c0ffee'']" "[]"]
    by simp
  from a b run show ?thesis by (simp add: alice_connection_def)
qed

text \<open>
  Claim C3, as amended. When the request server ends with a clean EOF the handler sends an
  exit-status request with status 0 on the channel and closes the server. When it ends
  with any other error the handler logs the error and returns; it does not close the
  server.
\<close>

theorem handleSftpConnection_serve_end:
  assumes run: "handleSftpConnection (ServeReturns err) ch connection = (evs, result)"
  shows "result = Returned
     \<and> (err = Some io_EOF \<longrightarrow>
          evs = [AddConnection (ID connection), CreateHandler (ID connection),
                 NewRequestServer ch, ServeCall ch,
                 Log LevelDebug ''connection closed, sending exit status'',
                 SendRequest ch ''exit-status'' False \<lparr>Status = 0\<rparr>,
                 Log LevelDebug ''sent exit status %+v error: %v'',
                 ServerClose ch,
                 RemoveConnection (ID connection)])
     \<and> (err \<noteq> Some io_EOF \<and> err \<noteq> None \<longrightarrow>
          evs = [AddConnection (ID connection), CreateHandler (ID connection),
                 NewRequestServer ch, ServeCall ch,
                 Log LevelWarn ''connection closed with error: %v'',
                 RemoveConnection (ID connection)]
          \<and> ServerClose ch \<notin> set evs)"
  using run by (auto simp: handleSftpConnection_def serveRequests_def)

theorem handleSftpConnection_serve_end_witness:
  "fst (handleSftpConnection (ServeReturns (Some io_EOF)) 7 alice_connection) =
     [AddConnection ''c0ffee'', CreateHandler ''c0ffee'', NewRequestServer 7, ServeCall 7,
      Log LevelDebug ''connection closed, sending exit status'',
      SendRequest 7 ''exit-status'' False \<lparr>Status = 0\<rparr>,
      Log LevelDebug ''sent exit status %+v error: %v'',
      ServerClose 7,
      RemoveConnection ''c0ffee'']
   \<and> fst (handleSftpConnection (ServeReturns (Some (ServerAuthError ''reset''))) 7 alice_connection) =
     [AddConnection ''c0ffee'', CreateHandler ''c0ffee'', NewRequestServer 7, ServeCall 7,
      Log LevelWarn ''connection closed with error: %v'',
      RemoveConnection ''c0ffee'']"
  using handleSftpConnection_serve_end [of "Some io_EOF" 7 alice_connection
      "fst (handleSftpConnection (ServeReturns (Some io_EOF)) 7 alice_connection)"
      "snd (handleSftpConnection (ServeReturns (Some io_EOF)) 7 alice_connection)"]
    handleSftpConnection_serve_end [of "Some (ServerAuthError ''reset'')" 7 alice_connection
      "fst (handleSftpConnection (ServeReturns (Some (ServerAuthError ''reset''))) 7 alice_connection)"
      "snd (handleSftpConnection (ServeReturns (Some (ServerAuthError ''reset''))) 7 alice_connection)"]
  by (simp add: alice_connection_def)

text \<open>
  Claim C3 as stated fails: after an error other than EOF the handler logs, and the request
  server is not closed.
\<close>

theorem handleSftpConnection_close_on_error_counterexample:
  "Log LevelWarn ''connection closed with error: %v'' \<in>
     set (fst (handleSftpConnection (ServeReturns (Some (errorString ''connection lost''))) 7 alice_connection))
   \<and> ServerClose 7 \<notin>
     set (fst (handleSftpConnection (ServeReturns (Some (errorString ''connection lost''))) 7 alice_connection))"
  by (simp add: handleSftpConnection_def serveRequests_def alice_connection_def)

section \<open>Properties of the login policy and the authentication adapter\<close>

lemma loginUser_rejects:
  assumes "\<not> filepath_IsAbs env (HomeDir user)
      \<or> (MaxSessions user > 0 \<and> getActiveSessions env (Username user) \<ge> MaxSessions user)
      \<or> \<not> IsLoginMethodAllowed env user loginMethod
      \<or> \<not> IsLoginFromAddrAllowed env user remoteAddr"
  shows "\<exists>err. snd (loginUser env user loginMethod remoteAddr publicKey) = Inl err"
  using assms
proof (elim disjE)
  assume "\<not> filepath_IsAbs env (HomeDir user)"
  then show ?thesis by (simp add: loginUser_def)
next
  assume "MaxSessions user > 0 \<and> getActiveSessions env (Username user) \<ge> MaxSessions user"
  then show ?thesis by (simp add: loginUser_def)
next
  assume "\<not> IsLoginMethodAllowed env user loginMethod"
  then show ?thesis by (simp add: loginUser_def)
next
  assume "\<not> IsLoginFromAddrAllowed env user remoteAddr"
  then show ?thesis by (simp add: loginUser_def)
qed

lemma loginUser_admits:
  assumes home: "filepath_IsAbs env (HomeDir user)"
    and sessions: "\<not> (MaxSessions user > 0 \<and> getActiveSessions env (Username user) \<ge> MaxSessions user)"
    and allowed: "IsLoginMethodAllowed env user loginMethod"
    and source: "IsLoginFromAddrAllowed env user remoteAddr"
  shows "snd (loginUser env user loginMethod remoteAddr publicKey) =
           (case json_Marshal env user of
              Inl err \<Rightarrow> Inl err
            | Inr js \<Rightarrow>
                Inr \<lparr>Extensions =
                       [''user'' \<mapsto> js,
                        ''login_method'' \<mapsto>
                           (if publicKey \<noteq> [] then loginMethod @ '': '' @ publicKey
                            else loginMethod)]\<rparr>)"
proof -
  from home sessions allowed source
  have "loginUser env user loginMethod remoteAddr publicKey =
          (case json_Marshal env user of
             Inl err \<Rightarrow>
               ([Log LevelWarn ''error serializing user info: %v, authentication rejected''], Inl err)
           | Inr js \<Rightarrow>
               ([],
                Inr \<lparr>Extensions =
                       [''user'' \<mapsto> js,
                        ''login_method'' \<mapsto>
                           (if length publicKey > 0 then loginMethod @ '': '' @ publicKey
                            else loginMethod)]\<rparr>))"
    unfolding loginUser_def by (simp only: if_True if_False not_not simp_thms)
  then show ?thesis by (cases "json_Marshal env user") simp_all
qed

text \<open>
  Claim C2. \<^verbatim>\<open>loginUser\<close> returns an error, and no permissions, when the home directory
  of the user is not absolute, or \<^verbatim>\<open>MaxSessions\<close> is positive and the active sessions of
  the user name have reached it, or the login method is not allowed for the user, or the
  remote address is not allowed. Otherwise it returns permissions whose extensions are
  exactly \<open>user\<close>, the serialised user record, and \<open>login_method\<close>, the login method,
  followed by \<open>: \<close> and the key fingerprint exactly when a non-empty public key was
  given. (Should the serialisation itself fail, its error is returned.)
\<close>

theorem loginUser_policy:
  "(\<not> filepath_IsAbs env (HomeDir user)
      \<or> (MaxSessions user > 0 \<and> getActiveSessions env (Username user) \<ge> MaxSessions user)
      \<or> \<not> IsLoginMethodAllowed env user loginMethod
      \<or> \<not> IsLoginFromAddrAllowed env user remoteAddr
     \<longrightarrow> (\<exists>err. snd (loginUser env user loginMethod remoteAddr publicKey) = Inl err))
   \<and> (filepath_IsAbs env (HomeDir user)
      \<and> \<not> (MaxSessions user > 0 \<and> getActiveSessions env (Username user) \<ge> MaxSessions user)
      \<and> IsLoginMethodAllowed env user loginMethod
      \<and> IsLoginFromAddrAllowed env user remoteAddr
     \<longrightarrow> (\<forall>js. json_Marshal env user = Inr js \<longrightarrow>
            snd (loginUser env user loginMethod remoteAddr publicKey) =
              Inr \<lparr>Extensions =
                     [''user'' \<mapsto> js,
                      ''login_method'' \<mapsto>
                         (if publicKey \<noteq> [] then loginMethod @ '': '' @ publicKey
                          else loginMethod)]\<rparr>)
         \<and> (\<forall>err. json_Marshal env user = Inl err \<longrightarrow>
            snd (loginUser env user loginMethod remoteAddr publicKey) = Inl err))"
proof (intro conjI impI allI)
  assume "\<not> filepath_IsAbs env (HomeDir user)
      \<or> (MaxSessions user > 0 \<and> getActiveSessions env (Username user) \<ge> MaxSessions user)
      \<or> \<not> IsLoginMethodAllowed env user loginMethod
      \<or> \<not> IsLoginFromAddrAllowed env user remoteAddr"
  then show "\<exists>err. snd (loginUser env user loginMethod remoteAddr publicKey) = Inl err"
    by (rule loginUser_rejects)
next
  fix js
  assume ok: "filepath_IsAbs env (HomeDir user)
      \<and> \<not> (MaxSessions user > 0 \<and> getActiveSessions env (Username user) \<ge> MaxSessions user)
      \<and> IsLoginMethodAllowed env user loginMethod
      \<and> IsLoginFromAddrAllowed env user remoteAddr"
    and js: "json_Marshal env user = Inr js"
  from ok have "snd (loginUser env user loginMethod remoteAddr publicKey) =
           (case json_Marshal env user of
              Inl err \<Rightarrow> Inl err
            | Inr js \<Rightarrow>
                Inr \<lparr>Extensions =
                       [''user'' \<mapsto> js,
                        ''login_method'' \<mapsto>
                           (if publicKey \<noteq> [] then loginMethod @ '': '' @ publicKey
                            else loginMethod)]\<rparr>)"
    by (intro loginUser_admits) simp_all
  with js show "snd (loginUser env user loginMethod remoteAddr publicKey) =
              Inr \<lparr>Extensions =
                     [''user'' \<mapsto> js,
                      ''login_method'' \<mapsto>
                         (if publicKey \<noteq> [] then loginMethod @ '': '' @ publicKey
                          else loginMethod)]\<rparr>"
    by simp
next
  fix err
  assume ok: "filepath_IsAbs env (HomeDir user)
      \<and> \<not> (MaxSessions user > 0 \<and> getActiveSessions env (Username user) \<ge> MaxSessions user)
      \<and> IsLoginMethodAllowed env user loginMethod
      \<and> IsLoginFromAddrAllowed env user remoteAddr"
    and failed: "json_Marshal env user = Inl err"
  from ok have "snd (loginUser env user loginMethod remoteAddr publicKey) =
           (case json_Marshal env user of
              Inl err \<Rightarrow> Inl err
            | Inr js \<Rightarrow>
                Inr \<lparr>Extensions =
                       [''user'' \<mapsto> js,
                        ''login_method'' \<mapsto>
                           (if publicKey \<noteq> [] then loginMethod @ '': '' @ publicKey
                            else loginMethod)]\<rparr>)"
    by (intro loginUser_admits) simp_all
  with failed show "snd (loginUser env user loginMethod remoteAddr publicKey) = Inl err"
    by simp
qed

theorem loginUser_policy_witness:
  "snd (loginUser sample_login_env alice ''publickey'' ''192.0.2.7:50022'' ''SHA256:k1'') =
     Inr \<lparr>Extensions = [''user'' \<mapsto> ''{username:alice,home_dir:/home/alice}'',
                        ''login_method'' \<mapsto> ''publickey: SHA256:k1'']\<rparr>
   \<and> snd (loginUser sample_login_env alice ''password'' ''192.0.2.7:50022'' []) =
     Inr \<lparr>Extensions = [''user'' \<mapsto> ''{username:alice,home_dir:/home/alice}'',
                        ''login_method'' \<mapsto> ''password'']\<rparr>
   \<and> (\<exists>err. snd (loginUser sample_login_env bob ''password'' ''192.0.2.7:50022'' []) = Inl err)
   \<and> (\<exists>err. snd (loginUser sample_login_env (alice\<lparr>MaxSessions := 1\<rparr>) ''password'' ''192.0.2.7:50022'' []) = Inl err)
   \<and> (\<exists>err. snd (loginUser sample_login_env alice ''keyboard-interactive'' ''192.0.2.7:50022'' []) = Inl err)"
  using loginUser_policy [of sample_login_env alice "''publickey''" "''192.0.2.7:50022''" "''SHA256:k1''"]
    loginUser_policy [of sample_login_env alice "''password''" "''192.0.2.7:50022''" "[]"]
    loginUser_policy [of sample_login_env bob "''password''" "''192.0.2.7:50022''" "[]"]
    loginUser_policy [of sample_login_env "alice\<lparr>MaxSessions := 1\<rparr>" "''password''" "''192.0.2.7:50022''" "[]"]
    loginUser_policy [of sample_login_env alice "''keyboard-interactive''" "''192.0.2.7:50022''" "[]"]
  by (simp add: sample_login_env_def alice_def bob_def)

lemma loginUser_no_metric:
  "filter is_login_metric (fst (loginUser env user loginMethod remoteAddr publicKey)) = []"
  by (simp add: loginUser_def split: sum.splits)

lemma validatePasswordCredentials_metrics:
  "filter is_login_metric (fst (validatePasswordCredentials env conn pass)) =
     [AddLoginAttempt SSHLoginMethodPassword,
      AddLoginResult SSHLoginMethodPassword
        (case snd (validatePasswordCredentials env conn pass) of
           Inl err \<Rightarrow> Some err | Inr sshPerm \<Rightarrow> None)]"
proof (cases "CheckUserAndPass env (MetaUser conn) pass")
  case (Inl err)
  then show ?thesis by (simp add: validatePasswordCredentials_def)
next
  case (Inr user)
  obtain evs res where lu:
    "loginUser env user SSHLoginMethodPassword (MetaRemoteAddr conn) [] = (evs, res)"
    by (cases "loginUser env user SSHLoginMethodPassword (MetaRemoteAddr conn) []")
  with loginUser_no_metric [of env user SSHLoginMethodPassword "MetaRemoteAddr conn" "[]"]
  have "filter is_login_metric evs = []" by simp
  with Inr lu show ?thesis
    by (simp add: validatePasswordCredentials_def split: sum.splits)
qed

lemma validatePublicKeyCredentials_metrics:
  "filter is_login_metric (fst (validatePublicKeyCredentials env conn pubKey)) =
     [AddLoginAttempt SSHLoginMethodPublicKey,
      AddLoginResult SSHLoginMethodPublicKey
        (case snd (validatePublicKeyCredentials env conn pubKey) of
           Inl err \<Rightarrow> Some err | Inr sshPerm \<Rightarrow> None)]"
proof (cases "CheckUserAndPubKey env (MetaUser conn) pubKey")
  case (Inl err)
  then show ?thesis by (simp add: validatePublicKeyCredentials_def)
next
  case (Inr found)
  obtain user keyID where found: "found = (user, keyID)" by (cases found)
  obtain evs res where lu:
    "loginUser env user SSHLoginMethodPublicKey (MetaRemoteAddr conn) keyID = (evs, res)"
    by (cases "loginUser env user SSHLoginMethodPublicKey (MetaRemoteAddr conn) keyID")
  with loginUser_no_metric [of env user SSHLoginMethodPublicKey "MetaRemoteAddr conn" keyID]
  have "filter is_login_metric evs = []" by simp
  with Inr found lu show ?thesis
    by (simp add: validatePublicKeyCredentials_def split: sum.splits)
qed

lemma validateKeyboardInteractiveCredentials_metrics:
  "filter is_login_metric (fst (validateKeyboardInteractiveCredentials env program conn)) =
     [AddLoginAttempt SSHLoginMethodKeyboardInteractive,
      AddLoginResult SSHLoginMethodKeyboardInteractive
        (case snd (validateKeyboardInteractiveCredentials env program conn) of
           Inl err \<Rightarrow> Some err | Inr sshPerm \<Rightarrow> None)]"
proof (cases "CheckKeyboardInteractiveAuth env (MetaUser conn) program")
  case (Inl err)
  then show ?thesis by (simp add: validateKeyboardInteractiveCredentials_def)
next
  case (Inr user)
  obtain evs res where lu:
    "loginUser env user SSHLoginMethodKeyboardInteractive (MetaRemoteAddr conn) [] = (evs, res)"
    by (cases "loginUser env user SSHLoginMethodKeyboardInteractive (MetaRemoteAddr conn) []")
  with loginUser_no_metric [of env user SSHLoginMethodKeyboardInteractive "MetaRemoteAddr conn" "[]"]
  have "filter is_login_metric evs = []" by simp
  with Inr lu show ?thesis
    by (simp add: validateKeyboardInteractiveCredentials_def split: sum.splits)
qed

lemma wrapAuthError_actions: "fst (wrapAuthError fmt r) = fst r"
  by (simp add: wrapAuthError_def split: prod.splits sum.splits)

text \<open>
  Claim C4. For each of the three credential validators, the login metrics among its
  actions are exactly one \<open>login_attempt\<close> followed by exactly one \<open>login_result\<close>, the
  latter carrying the error that the validator returns (none on success). The callbacks
  installed in the SSH configuration perform the actions of their validator and no other.
\<close>

theorem login_metrics_once_in_order:
  "filter is_login_metric (fst (validatePasswordCredentials env conn pass)) =
     [AddLoginAttempt SSHLoginMethodPassword,
      AddLoginResult SSHLoginMethodPassword
        (case snd (validatePasswordCredentials env conn pass) of
           Inl err \<Rightarrow> Some err | Inr sshPerm \<Rightarrow> None)]
   \<and> filter is_login_metric (fst (validatePublicKeyCredentials env conn pubKey)) =
     [AddLoginAttempt SSHLoginMethodPublicKey,
      AddLoginResult SSHLoginMethodPublicKey
        (case snd (validatePublicKeyCredentials env conn pubKey) of
           Inl err \<Rightarrow> Some err | Inr sshPerm \<Rightarrow> None)]
   \<and> filter is_login_metric (fst (validateKeyboardInteractiveCredentials env program conn)) =
     [AddLoginAttempt SSHLoginMethodKeyboardInteractive,
      AddLoginResult SSHLoginMethodKeyboardInteractive
        (case snd (validateKeyboardInteractiveCredentials env program conn) of
           Inl err \<Rightarrow> Some err | Inr sshPerm \<Rightarrow> None)]
   \<and> fst (PasswordCallback env conn pass) = fst (validatePasswordCredentials env conn pass)
   \<and> fst (PublicKeyCallback env conn pubKey) = fst (validatePublicKeyCredentials env conn pubKey)
   \<and> fst (KeyboardInteractiveCallback env program conn) =
       fst (validateKeyboardInteractiveCredentials env program conn)"
  by (simp only: validatePasswordCredentials_metrics validatePublicKeyCredentials_metrics
      validateKeyboardInteractiveCredentials_metrics wrapAuthError_actions
      PasswordCallback_def PublicKeyCallback_def KeyboardInteractiveCallback_def simp_thms)

theorem login_metrics_once_in_order_witness:
  "fst (validatePasswordCredentials sample_auth_env alice_conn ''secret'') =
     [AddLoginAttempt ''password'', AddLoginResult ''password'' None]
   \<and> fst (validatePublicKeyCredentials sample_auth_env alice_conn ''ssh-ed25519 AAAA'') =
     [AddLoginAttempt ''publickey'',
      ConnectionFailedLog ''alice'' ''192.0.2.7'' ''publickey'' (errorString ''invalid credentials''),
      AddLoginResult ''publickey'' (Some (errorString ''invalid credentials''))]
   \<and> filter is_login_metric
        (fst (validateKeyboardInteractiveCredentials sample_auth_env ''/usr/bin/otp'' alice_conn)) =
     [AddLoginAttempt ''keyboard-interactive'',
      AddLoginResult ''keyboard-interactive''
        (Some (Errorf ''Login method %#v is not allowed for user %#v''
                 [ArgS ''keyboard-interactive'', ArgS ''alice'']))]"
proof -
  have ip: "GetIPFromRemoteAddress sample_auth_env (MetaRemoteAddr alice_conn) = ''192.0.2.7''"
    by (simp add: sample_auth_env_def alice_conn_def)
  have pw: "validatePasswordCredentials sample_auth_env alice_conn ''secret'' =
      ([AddLoginAttempt ''password'', AddLoginResult ''password'' None],
       Inr \<lparr>Extensions = [''user'' \<mapsto> ''{username:alice,home_dir:/home/alice}'',
                          ''login_method'' \<mapsto> ''password'']\<rparr>)"
    by (simp add: Let_def validatePasswordCredentials_def loginUser_def SSHLoginMethodPassword_def
        sample_auth_env_def alice_conn_def alice_def)
  have pk: "validatePublicKeyCredentials sample_auth_env alice_conn ''ssh-ed25519 AAAA'' =
      ([AddLoginAttempt ''publickey'',
        ConnectionFailedLog ''alice'' ''192.0.2.7'' ''publickey'' (errorString ''invalid credentials''),
        AddLoginResult ''publickey'' (Some (errorString ''invalid credentials''))],
       Inl (errorString ''invalid credentials''))"
    using ip by (simp add: Let_def validatePublicKeyCredentials_def SSHLoginMethodPublicKey_def)
      (simp add: sample_auth_env_def alice_conn_def)
  have kb: "snd (validateKeyboardInteractiveCredentials sample_auth_env ''/usr/bin/otp'' alice_conn) =
      Inl (Errorf ''Login method %#v is not allowed for user %#v''
                 [ArgS ''keyboard-interactive'', ArgS ''alice''])"
    by (simp add: Let_def validateKeyboardInteractiveCredentials_def loginUser_def
        SSHLoginMethodKeyboardInteractive_def sample_auth_env_def alice_conn_def alice_def)
  from login_metrics_once_in_order
    [of sample_auth_env alice_conn "''secret''" "''ssh-ed25519 AAAA''" "''/usr/bin/otp''"]
    pw pk kb
  show ?thesis
    by (simp add: SSHLoginMethodKeyboardInteractive_def)
qed

section \<open>Properties of the handshake engine\<close>


















section \<open>Properties of the channel dispatcher\<close>

lemma handleRequest_other_subsystem:
  assumes "Type req = ''subsystem''" and "4 \<le> length (Payload req)"
    and "drop 4 (Payload req) \<noteq> ''sftp''"
  shows "handleRequest run enabled ch connection req = ([Reply ch False], Inr connection)"
  using assms by (simp add: handleRequest_def)

lemma handleRequest_other_type:
  assumes "Type req \<noteq> ''subsystem''" and "Type req \<noteq> ''exec''"
  shows "handleRequest run enabled ch connection req = ([Reply ch False], Inr connection)"
  using assms by (simp add: handleRequest_def)

lemma channelRequests_continues:
  assumes "handleRequest run enabled ch connection req = (evs, Inr connection')"
  shows "channelRequests run enabled ch connection (req # reqs) =
           (evs @ fst (channelRequests run enabled ch connection' reqs),
            snd (channelRequests run enabled ch connection' reqs))"
  using assms by (simp split: prod.splits)

lemma dispatchChannel_not_session:
  assumes "ChannelType newChannel \<noteq> ''session''"
  shows "dispatchChannel newChannel =
        [Log LevelDebug ''received an unknown channel type: %v'',
         ChannelReject (ChannelNo newChannel) UnknownChannelType ''unknown channel type'']"
  using assms by (simp add: dispatchChannel_def)

text \<open>
  Claim C8. A new channel whose type is not \<open>session\<close> is rejected with the
  unknown-channel-type code, and the dispatcher goes on with the next channel. On an
  accepted channel, a \<open>subsystem\<close> request whose payload, after the four-byte length
  prefix, is not \<open>sftp\<close> gets the reply not-OK, and so does a request whose type is
  neither \<open>subsystem\<close> nor \<open>exec\<close>; after such a reply the request loop goes on with the
  next request of the channel, the connection unchanged.
\<close>

theorem channel_dispatch_rejections:
  "(ChannelType newChannel \<noteq> ''session'' \<longrightarrow>
      dispatchChannel newChannel =
        [Log LevelDebug ''received an unknown channel type: %v'',
         ChannelReject (ChannelNo newChannel) UnknownChannelType ''unknown channel type'']
      \<and> dispatchChannels (newChannel # chans) =
          dispatchChannel newChannel @ dispatchChannels chans)
   \<and> (Type req = ''subsystem'' \<and> 4 \<le> length (Payload req) \<and> drop 4 (Payload req) \<noteq> ''sftp'' \<longrightarrow>
        handleRequest run enabled ch connection req = ([Reply ch False], Inr connection))
   \<and> (Type req \<noteq> ''subsystem'' \<and> Type req \<noteq> ''exec'' \<longrightarrow>
        handleRequest run enabled ch connection req = ([Reply ch False], Inr connection))
   \<and> (handleRequest run enabled ch connection req = ([Reply ch False], Inr connection) \<longrightarrow>
        channelRequests run enabled ch connection (req # reqs) =
          (Reply ch False # fst (channelRequests run enabled ch connection reqs),
           snd (channelRequests run enabled ch connection reqs)))"
proof (intro conjI impI)
  assume "ChannelType newChannel \<noteq> ''session''"
  then show "dispatchChannel newChannel =
        [Log LevelDebug ''received an unknown channel type: %v'',
         ChannelReject (ChannelNo newChannel) UnknownChannelType ''unknown channel type'']"
    by (rule dispatchChannel_not_session)
next
  show "dispatchChannels (newChannel # chans) = dispatchChannel newChannel @ dispatchChannels chans"
    by simp
next
  assume "Type req = ''subsystem'' \<and> 4 \<le> length (Payload req) \<and> drop 4 (Payload req) \<noteq> ''sftp''"
  then show "handleRequest run enabled ch connection req = ([Reply ch False], Inr connection)"
    by (simp add: handleRequest_other_subsystem)
next
  assume "Type req \<noteq> ''subsystem'' \<and> Type req \<noteq> ''exec''"
  then show "handleRequest run enabled ch connection req = ([Reply ch False], Inr connection)"
    by (simp add: handleRequest_other_type)
next
  assume "handleRequest run enabled ch connection req = ([Reply ch False], Inr connection)"
  from channelRequests_continues [OF this, of reqs]
  show "channelRequests run enabled ch connection (req # reqs) =
          (Reply ch False # fst (channelRequests run enabled ch connection reqs),
           snd (channelRequests run enabled ch connection reqs))"
    by simp
qed

theorem channel_dispatch_rejections_witness:
  "dispatchChannel x11_channel =
     [Log LevelDebug ''received an unknown channel type: %v'',
      ChannelReject 3 UnknownChannelType ''unknown channel type'']
   \<and> channelRequests refuse_exec [] 7 alice_connection
        [\<lparr>Type = ''subsystem'', Payload = [CHR 0x00, CHR 0x00, CHR 0x00, CHR 0x05] @ ''shell''\<rparr>,
         \<lparr>Type = ''pty-req'', Payload = []\<rparr>,
         \<lparr>Type = ''subsystem'', Payload = [CHR 0x00, CHR 0x00, CHR 0x00, CHR 0x04] @ ''sftp''\<rparr>] =
     ([Reply 7 False, Reply 7 False, GoHandleSftpConnection 7 ''c0ffee'', Reply 7 True], Returned)"
proof -
  let ?shell = "\<lparr>Type = ''subsystem'', Payload = [CHR 0x00, CHR 0x00, CHR 0x00, CHR 0x05] @ ''shell''\<rparr>"
  let ?pty = "\<lparr>Type = ''pty-req'', Payload = []\<rparr>"
  let ?sftp = "\<lparr>Type = ''subsystem'', Payload = [CHR 0x00, CHR 0x00, CHR 0x00, CHR 0x04] @ ''sftp''\<rparr>"
  have x: "ChannelType x11_channel \<noteq> ''session''" by (simp add: x11_channel_def)
  have a: "dispatchChannel x11_channel =
     [Log LevelDebug ''received an unknown channel type: %v'',
      ChannelReject 3 UnknownChannelType ''unknown channel type'']"
    using channel_dispatch_rejections [of x11_channel, THEN conjunct1, rule_format, OF x]
    by (simp add: x11_channel_def)
  have s: "Type ?shell = ''subsystem'' \<and> 4 \<le> length (Payload ?shell) \<and> drop 4 (Payload ?shell) \<noteq> ''sftp''"
    by simp
  have p: "Type ?pty \<noteq> ''subsystem'' \<and> Type ?pty \<noteq> ''exec''" by simp
  note h1 = channel_dispatch_rejections [of _ _ ?shell refuse_exec "[]" 7 alice_connection,
      THEN conjunct2, THEN conjunct1, rule_format, OF s]
  note h2 = channel_dispatch_rejections [of _ _ ?pty refuse_exec "[]" 7 alice_connection,
      THEN conjunct2, THEN conjunct2, THEN conjunct1, rule_format, OF p]
  note l1 = channel_dispatch_rejections [of _ _ ?shell refuse_exec "[]" 7 alice_connection "[?pty, ?sftp]",
      THEN conjunct2, THEN conjunct2, THEN conjunct2, rule_format, OF h1]
  note l2 = channel_dispatch_rejections [of _ _ ?pty refuse_exec "[]" 7 alice_connection "[?sftp]",
      THEN conjunct2, THEN conjunct2, THEN conjunct2, rule_format, OF h2]
  have l3: "channelRequests refuse_exec [] 7 alice_connection [?sftp] =
      ([GoHandleSftpConnection 7 ''c0ffee'', Reply 7 True], Returned)"
    by (simp add: handleRequest_def alice_connection_def)
  from a l1 l2 l3 show ?thesis by simp
qed

lemma handleRequest_short_payload:
  assumes "Type req = ''subsystem''" and "length (Payload req) < 4"
  shows "handleRequest run enabled ch connection req =
           ([], Inl ''runtime error: slice bounds out of range'')"
  using assms by (simp add: handleRequest_def)

lemma channelRequests_panics:
  assumes "handleRequest run enabled ch connection req = (evs, Inl msg)"
  shows "channelRequests run enabled ch connection (req # reqs) = (evs, Panicked msg)"
  using assms by simp

text \<open>
  Claim C9. A \<open>subsystem\<close> request whose payload has fewer than four bytes makes the
  request loop panic at \<^verbatim>\<open>req.Payload[4:]\<close>: no reply is sent, for this request or for any
  later request of the channel.
\<close>

theorem short_subsystem_payload_panics:
  "Type req = ''subsystem'' \<and> length (Payload req) < 4 \<longrightarrow>
     handleRequest run enabled ch connection req =
       ([], Inl ''runtime error: slice bounds out of range'')
     \<and> channelRequests run enabled ch connection (req # reqs) =
       ([], Panicked ''runtime error: slice bounds out of range'')
     \<and> filter is_reply (fst (channelRequests run enabled ch connection (req # reqs))) = []"
proof (intro impI)
  assume short: "Type req = ''subsystem'' \<and> length (Payload req) < 4"
  then have one: "handleRequest run enabled ch connection req =
       ([], Inl ''runtime error: slice bounds out of range'')"
    by (simp add: handleRequest_short_payload)
  from channelRequests_panics [OF one, of reqs]
  have task: "channelRequests run enabled ch connection (req # reqs) =
       ([], Panicked ''runtime error: slice bounds out of range'')" .
  from one task show "handleRequest run enabled ch connection req =
       ([], Inl ''runtime error: slice bounds out of range'')
     \<and> channelRequests run enabled ch connection (req # reqs) =
       ([], Panicked ''runtime error: slice bounds out of range'')
     \<and> filter is_reply (fst (channelRequests run enabled ch connection (req # reqs))) = []"
    by simp
qed

theorem short_subsystem_payload_panics_witness:
  "channelRequests refuse_exec [] 7 alice_connection
     [\<lparr>Type = ''subsystem'', Payload = ''sft''\<rparr>, \<lparr>Type = ''pty-req'', Payload = []\<rparr>] =
     ([], Panicked ''runtime error: slice bounds out of range'')"
  using short_subsystem_payload_panics
    [of "\<lparr>Type = ''subsystem'', Payload = ''sft''\<rparr>" refuse_exec "[]" 7 alice_connection
        "[\<lparr>Type = ''pty-req'', Payload = []\<rparr>]"]
  by simp


section \<open>Properties of host keys and start-up\<close>

















lemma sample_checkHostKeys:
  "checkHostKeys sample_host_env sample_config ''/etc/sftpgo'' sample_files =
     ([Log LevelInfo ''No host keys configured and %#v does not exist; creating new key for server'',
       LogToConsole LevelInfo ''No host keys configured and %#v does not exist; creating new key for server'',
       GenerateKey ''/etc/sftpgo/id_ecdsa''],
      sample_files(''/etc/sftpgo/id_ecdsa'' := Content ''new ECDSA key''),
      sample_config\<lparr>Keys := [\<lparr>PrivateKey = ''id_rsa''\<rparr>, \<lparr>PrivateKey = ''id_ecdsa''\<rparr>]\<rparr>,
      None)"
  by (simp add: checkHostKeys_def sample_host_env_def sample_config_def sample_files_def
      defaultPrivateRSAKeyName_def defaultPrivateECDSAKeyName_def os_IsNotExist_def os_Stat_def
      Let_def)

lemma sample_startup:
  "\<exists>evs st. Initialize_startup sample_host_env sample_config ''/etc/sftpgo'' sample_files = (evs, Inr st)"
  by (simp add: Initialize_startup_def sample_checkHostKeys Let_def)
   (simp add: sample_host_env_def sample_files_def sample_config_def ioutil_ReadFile_def
      privateFilePath_def getProxyListener_def configureKeyboardInteractiveAuth_def
      configureLoginBanner_def checkSSHCommands_def split: prod.splits)





section \<open>Properties of the PROXY protocol listener\<close>





lemma policyFor_whitelist:
  "\<not> allowFrom peer \<Longrightarrow>
     policyFor \<lparr>Listener = listener, Policy = Some (whitelistPolicy allowFrom def)\<rparr> peer = (def, None)"
  by (simp add: policyFor_def whitelistPolicy_def)











section \<open>Properties of the accept loop\<close>

lemma acceptLoop_running: "snd (acceptLoop pl accepts n) = None"
  by (induction n) (auto split: prod.splits option.splits)

lemma acceptLoop_actions:
  "fst (acceptLoop pl accepts n) = concat (map (\<lambda>i. acceptOnce pl (accepts i)) [0..<n])"
proof (induction n)
  case 0
  show ?case by simp
next
  case (Suc n)
  obtain evs where run: "acceptLoop pl accepts n = (evs, None)"
    using acceptLoop_running [of pl accepts n] by (cases "acceptLoop pl accepts n") simp
  with Suc show ?case by simp
qed

lemma acceptOnce_handoff:
  "acceptOnce pl (Some conn, None) =
     [if pl \<noteq> None then ProxyListenerAccept else ListenerAccept, GoAcceptInboundConnection conn]"
  by (simp add: acceptOnce_def)

lemma acceptOnce_failure:
  "fst r = None \<or> snd r \<noteq> None \<Longrightarrow>
     acceptOnce pl r = [if pl \<noteq> None then ProxyListenerAccept else ListenerAccept]"
  by (cases r) (auto simp: acceptOnce_def split: option.splits)

lemma Initialize_after_startup:
  "Initialize_startup env c configDir fs = (evs, Inr st) \<Longrightarrow>
     Initialize env c configDir fs accepts n =
       (evs @ fst (acceptLoop (StartProxyListener st) accepts n), None)"
  using acceptLoop_running [of "StartProxyListener st" accepts n]
  by (auto simp: Initialize_def split: prod.splits)

text \<open>
  Claim C7, as amended. The accept loop never returns: after any number of iterations it
  is still running, and its actions are those of the iterations so far, in order. An
  iteration whose accept yields a socket and no error hands the socket to a new handshake
  task. An iteration whose accept fails does nothing else: the error is not logged. The
  same holds of \<^verbatim>\<open>Initialize\<close> once start-up has succeeded.
\<close>

theorem Initialize_accept_loop:
  "snd (acceptLoop pl accepts n) = None
   \<and> fst (acceptLoop pl accepts n) = concat (map (\<lambda>i. acceptOnce pl (accepts i)) [0..<n])
   \<and> (\<forall>conn. r = (Some conn, None) \<longrightarrow>
         acceptOnce pl r =
           [if pl \<noteq> None then ProxyListenerAccept else ListenerAccept,
            GoAcceptInboundConnection conn])
   \<and> (fst r = None \<or> snd r \<noteq> None \<longrightarrow>
         acceptOnce pl r = [if pl \<noteq> None then ProxyListenerAccept else ListenerAccept])
   \<and> (\<forall>evs st. Initialize_startup env c configDir fs = (evs, Inr st) \<longrightarrow>
         Initialize env c configDir fs accepts n =
           (evs @ fst (acceptLoop (StartProxyListener st) accepts n), None))"
  by (simp add: acceptLoop_running acceptLoop_actions acceptOnce_handoff acceptOnce_failure
      Initialize_after_startup)

text \<open>
  Claim C7 as stated fails: two accepts that return an error leave no log record.
\<close>

theorem accept_error_logged_counterexample:
  "acceptLoop None (\<lambda>i. (None, Some (errorString ''accept tcp: too many open files''))) 2 =
     ([ListenerAccept, ListenerAccept], None)
   \<and> filter is_log
       (fst (acceptLoop None (\<lambda>i. (None, Some (errorString ''accept tcp: too many open files''))) 2)) = []"
  by (simp add: numeral_2_eq_2 acceptOnce_def)

theorem Initialize_accept_loop_witness:
  "fst (acceptLoop None
          (\<lambda>i. if i = 0 then (None, Some (errorString ''accept tcp: too many open files''))
                else (Some 42, None)) 2) =
     [ListenerAccept, ListenerAccept, GoAcceptInboundConnection 42]
   \<and> snd (Initialize sample_host_env sample_config ''/etc/sftpgo'' sample_files
          (\<lambda>i. if i = 0 then (None, Some (errorString ''accept tcp: too many open files''))
                else (Some 42, None)) 2) = None"
proof -
  let ?accepts = "\<lambda>i::nat. if i = 0 then (None, Some (errorString ''accept tcp: too many open files''))
                else (Some (42::nat), None)"
  obtain evs st where up:
    "Initialize_startup sample_host_env sample_config ''/etc/sftpgo'' sample_files = (evs, Inr st)"
    using sample_startup by blast
  note loop = Initialize_accept_loop [of None ?accepts 2 "?accepts 0" sample_host_env
      sample_config "''/etc/sftpgo''" sample_files]
  have failed: "fst (?accepts 0) = None \<or> snd (?accepts 0) \<noteq> None" by simp
  have first: "acceptOnce None (?accepts 0) = [ListenerAccept]"
    using loop [THEN conjunct2, THEN conjunct2, THEN conjunct2, THEN conjunct1, rule_format, OF failed]
    by simp
  have second: "acceptOnce None (?accepts 1) = [ListenerAccept, GoAcceptInboundConnection 42]"
    using Initialize_accept_loop [of None ?accepts 2 "?accepts 1",
        THEN conjunct2, THEN conjunct2, THEN conjunct1, rule_format, of 42]
    by simp
  have "[0..<2] = [0, Suc 0]" by (simp add: numeral_2_eq_2)
  with loop first second
  have actions: "fst (acceptLoop None ?accepts 2) =
      [ListenerAccept, ListenerAccept, GoAcceptInboundConnection 42]"
    by simp
  from loop [THEN conjunct2, THEN conjunct2, THEN conjunct2, THEN conjunct2, rule_format, OF up]
  have "snd (Initialize sample_host_env sample_config ''/etc/sftpgo'' sample_files ?accepts 2) = None"
    by simp
  with actions show ?thesis by simp
qed

end
